theory Spec2Isabelle
  imports Main "HOL-Library.Multiset" "HOL-Library.Finite_Map"
begin

section \<open>The AST data model (src/AST.ts)\<close>

text \<open>
  Scalars of the host language. A JavaScript number is modelled as an \<open>int\<close> (the
  operations below only store and compare literals), a symbol as an opaque identity, and a
  value of type \<open>unknown\<close> as a small universe of JavaScript values. A plain object is a
  finite map from its keys to its values: the order of the keys plays no part, neither in
  AST.ts nor in the equality of the library it uses. A function is an object with an
  identity, a reference: the predicate of a Refinement, which AST.ts only stores, is its
  reference, and the producer of a Lazy node, which AST.ts calls, is its reference together
  with the function it computes.
\<close>

datatype literal = LString string | LNumber int | LBoolean bool | LNull | LBigInt int

datatype symbol = Symbol nat

datatype propertyKey = PKString string | PKNumber int | PKSymbol symbol

datatype unknown =
    UUndefined
  | UNull
  | UBoolean bool
  | UNumber int
  | UString string
  | UBigInt int
  | USymbol symbol
  | UArray "unknown list"
  | UObject "(propertyKey, unknown) fmap"

type_synonym annotations = "(propertyKey, unknown) fmap"

datatype predicate = Predicate nat

datatype reference = Reference nat

datatype indexSignatureKey = IString | INumber | ISymbol

datatype enumValue = EString string | ENumber int

text \<open>
  The interfaces Element, Field, IndexSignature, Tuple and Struct are datatypes with one
  constructor and the interface's fields as selectors; they are polymorphic in the type of
  the nested AST so that the AST can be defined after them. The tagged union \<open>AST\<close> is the
  datatype \<open>ast\<close>, one constructor for each tag. The field \<open>f\<close> of a Lazy node is a function
  object: the constructor takes its reference and the function from \<open>unit\<close> that it
  computes. A value of a datatype is a finite tree, so the model covers the Lazy nodes whose
  unfolding ends.
\<close>

datatype 'a element =
  Element (element_type: 'a) (element_isOptional: bool) (element_annotations: annotations)

datatype 'a field =
  Field (field_key: propertyKey) (field_value: 'a) (field_isOptional: bool)
    (field_isReadonly: bool) (field_annotations: annotations)

datatype 'a indexSignature =
  IndexSignature (is_key: indexSignatureKey) (is_value: 'a) (is_isReadonly: bool)
    (is_annotations: annotations)

datatype 'a tuple =
  MkTuple (elements: "'a element list") (rest: "'a list option") (tuple_isReadonly: bool)
    (tuple_annotations: annotations) (tuple_allowUnexpected: bool)

datatype 'a struct =
  MkStruct (fields: "'a field list") (indexSignatures: "'a indexSignature list")
    (struct_annotations: annotations) (struct_allowUnexpected: bool)

datatype ast =
    TypeAlias "ast list" ast annotations
  | LiteralType literal annotations
  | UniqueSymbol symbol annotations
  | UndefinedKeyword annotations
  | VoidKeyword annotations
  | NeverKeyword annotations
  | UnknownKeyword annotations
  | AnyKeyword annotations
  | StringKeyword annotations
  | NumberKeyword annotations
  | BooleanKeyword annotations
  | BigIntKeyword annotations
  | SymbolKeyword annotations
  | ObjectKeyword annotations
  | Tuple "ast tuple"
  | Struct "ast struct"
  | Union "ast list" annotations
  | Lazy reference "unit \<Rightarrow> ast" annotations
  | Enums "(string \<times> enumValue) list" annotations
  | Refinement ast predicate unknown annotations

datatype error = Error string | TypeError string

text \<open>The discriminant \<open>_tag\<close> of a node.\<close>

fun tag :: "ast \<Rightarrow> string" where
  "tag (TypeAlias ps t a) = ''TypeAlias''"
| "tag (LiteralType l a) = ''LiteralType''"
| "tag (UniqueSymbol s a) = ''UniqueSymbol''"
| "tag (UndefinedKeyword a) = ''UndefinedKeyword''"
| "tag (VoidKeyword a) = ''VoidKeyword''"
| "tag (NeverKeyword a) = ''NeverKeyword''"
| "tag (UnknownKeyword a) = ''UnknownKeyword''"
| "tag (AnyKeyword a) = ''AnyKeyword''"
| "tag (StringKeyword a) = ''StringKeyword''"
| "tag (NumberKeyword a) = ''NumberKeyword''"
| "tag (BooleanKeyword a) = ''BooleanKeyword''"
| "tag (BigIntKeyword a) = ''BigIntKeyword''"
| "tag (SymbolKeyword a) = ''SymbolKeyword''"
| "tag (ObjectKeyword a) = ''ObjectKeyword''"
| "tag (Tuple t) = ''Tuple''"
| "tag (Struct s) = ''Struct''"
| "tag (Union ms a) = ''Union''"
| "tag (Lazy r f a) = ''Lazy''"
| "tag (Enums es a) = ''Enums''"
| "tag (Refinement t p m a) = ''Refinement''"

subsection \<open>Constructors\<close>

text \<open>
  A parameter with a default value (\<open>annotations = {}\<close>, \<open>allowUnexpected = false\<close>) is an
  explicit argument of the model; a call of the source that omits it passes the
  empty map \<open>fmempty\<close> or \<open>False\<close>.
\<close>

definition element :: "ast \<Rightarrow> bool \<Rightarrow> annotations \<Rightarrow> ast element" where
  "element type isOptional annotations = Element type isOptional annotations"

definition tuple ::
  "ast element list \<Rightarrow> ast list option \<Rightarrow> bool \<Rightarrow> annotations \<Rightarrow> bool \<Rightarrow> ast tuple" where
  "tuple els rst isReadonly annotations allowUnexpected =
     MkTuple els rst isReadonly annotations allowUnexpected"

definition field :: "propertyKey \<Rightarrow> ast \<Rightarrow> bool \<Rightarrow> bool \<Rightarrow> annotations \<Rightarrow> ast field" where
  "field key val isOptional isReadonly annotations =
     Field key val isOptional isReadonly annotations"

definition indexSignature ::
  "indexSignatureKey \<Rightarrow> ast \<Rightarrow> bool \<Rightarrow> annotations \<Rightarrow> ast indexSignature" where
  "indexSignature key val isReadonly annotations = IndexSignature key val isReadonly annotations"

subsection \<open>Cardinality and the struct constructor\<close>

primrec getCardinality :: "ast \<Rightarrow> nat" where
  "getCardinality (TypeAlias ps t a) = getCardinality t"
| "getCardinality (NeverKeyword a) = 0"
| "getCardinality (LiteralType l a) = 1"
| "getCardinality (UndefinedKeyword a) = 1"
| "getCardinality (UniqueSymbol s a) = 1"
| "getCardinality (BooleanKeyword a) = 2"
| "getCardinality (StringKeyword a) = 3"
| "getCardinality (NumberKeyword a) = 3"
| "getCardinality (BigIntKeyword a) = 3"
| "getCardinality (SymbolKeyword a) = 3"
| "getCardinality (UnknownKeyword a) = 4"
| "getCardinality (AnyKeyword a) = 4"
| "getCardinality (VoidKeyword a) = 5"
| "getCardinality (ObjectKeyword a) = 5"
| "getCardinality (Tuple t) = 5"
| "getCardinality (Struct s) = 5"
| "getCardinality (Union ms a) = 5"
| "getCardinality (Lazy r f a) = 5"
| "getCardinality (Enums es a) = 5"
| "getCardinality (Refinement t p m a) = 5"

text \<open>
  \<open>RA.sort\<close> copies the array and sorts the copy with the host's stable sort, comparing
  with the given order: here the numeric order on the cardinality of the entry's \<open>value\<close>.
  \<open>sort_key\<close> is the stable insertion sort by a key. The source applies the one function to
  fields and to index signatures; the model has one instance for each.
\<close>

definition sortByCardinalityAsc_fields :: "ast field list \<Rightarrow> ast field list" where
  "sortByCardinalityAsc_fields = sort_key (\<lambda>f. getCardinality (field_value f))"

definition sortByCardinalityAsc_indexSignatures ::
  "ast indexSignature list \<Rightarrow> ast indexSignature list" where
  "sortByCardinalityAsc_indexSignatures = sort_key (\<lambda>i. getCardinality (is_value i))"

definition struct ::
  "ast field list \<Rightarrow> ast indexSignature list \<Rightarrow> annotations \<Rightarrow> bool \<Rightarrow> ast struct" where
  "struct fs iss annotations allowUnexpected =
     MkStruct (sortByCardinalityAsc_fields fs) (sortByCardinalityAsc_indexSignatures iss)
       annotations allowUnexpected"

subsection \<open>Weight and the union constructor\<close>

primrec getWeight :: "ast \<Rightarrow> nat" where
  "getWeight (TypeAlias ps t a) = getWeight t"
| "getWeight (Tuple t) = length (elements t) + (if rest t \<noteq> None then 1 else 0)"
| "getWeight (Struct s) = length (fields s) + length (indexSignatures s)"
| "getWeight (Union ms a) = foldl (\<lambda>n w. n + w) 0 (map getWeight ms)"
| "getWeight (Lazy r f a) = 10"
| "getWeight (LiteralType l a) = 0"
| "getWeight (UniqueSymbol s a) = 0"
| "getWeight (UndefinedKeyword a) = 0"
| "getWeight (VoidKeyword a) = 0"
| "getWeight (NeverKeyword a) = 0"
| "getWeight (UnknownKeyword a) = 0"
| "getWeight (AnyKeyword a) = 0"
| "getWeight (StringKeyword a) = 0"
| "getWeight (NumberKeyword a) = 0"
| "getWeight (BooleanKeyword a) = 0"
| "getWeight (BigIntKeyword a) = 0"
| "getWeight (SymbolKeyword a) = 0"
| "getWeight (ObjectKeyword a) = 0"
| "getWeight (Enums es a) = 0"
| "getWeight (Refinement t p m a) = 0"

text \<open>
  The reversed order sorts descending; the sort stays stable, so members of equal weight
  keep their relative order. Sorting ascending by the negated weight is that sort.
\<close>

definition sortByWeightDesc :: "ast list \<Rightarrow> ast list" where
  "sortByWeightDesc = sort_key (\<lambda>a. - int (getWeight a))"

text \<open>
  The equality of the external library (\<open>Equal.equals\<close>), with which its array functions
  compare entries: plain objects and arrays are compared by structure, an object key by key
  whatever the order of its keys, and functions by reference. On the datatypes above the
  equality of HOL is this comparison, except that on a Lazy node it also compares what the
  producer computes. \<open>erase\<close> replaces the function of every producer by a fixed one and
  keeps its reference; two nodes are equal for the library when they are the same after
  \<open>erase\<close>.
\<close>

primrec erase :: "ast \<Rightarrow> ast" where
  "erase (TypeAlias ps t a) = TypeAlias (map erase ps) (erase t) a"
| "erase (Tuple t) = Tuple (map_tuple erase t)"
| "erase (Struct s) = Struct (map_struct erase s)"
| "erase (Union ms a) = Union (map erase ms) a"
| "erase (Lazy r f a) = Lazy r (\<lambda>u. NeverKeyword fmempty) a"
| "erase (Refinement t p m a) = Refinement (erase t) p m a"
| "erase (LiteralType l a) = LiteralType l a"
| "erase (UniqueSymbol s a) = UniqueSymbol s a"
| "erase (UndefinedKeyword a) = UndefinedKeyword a"
| "erase (VoidKeyword a) = VoidKeyword a"
| "erase (NeverKeyword a) = NeverKeyword a"
| "erase (UnknownKeyword a) = UnknownKeyword a"
| "erase (AnyKeyword a) = AnyKeyword a"
| "erase (StringKeyword a) = StringKeyword a"
| "erase (NumberKeyword a) = NumberKeyword a"
| "erase (BooleanKeyword a) = BooleanKeyword a"
| "erase (BigIntKeyword a) = BigIntKeyword a"
| "erase (SymbolKeyword a) = SymbolKeyword a"
| "erase (ObjectKeyword a) = ObjectKeyword a"
| "erase (Enums es a) = Enums es a"

definition equals :: "ast \<Rightarrow> ast \<Rightarrow> bool" where
  "equals x y = (erase x = erase y)"

text \<open>
  The array functions of the external library \<open>@fp-ts/data/ReadonlyArray\<close>. \<open>flatMap\<close>
  maps and concatenates. \<open>uniq\<close> walks the array from the left and keeps an entry when no
  entry kept so far equals it, for the equality of the library.
\<close>

definition flatMap :: "('a \<Rightarrow> 'b list) \<Rightarrow> 'a list \<Rightarrow> 'b list" where
  "flatMap f xs = concat (map f xs)"

fun uniq_loop :: "ast list \<Rightarrow> ast list \<Rightarrow> ast list" where
  "uniq_loop out [] = out"
| "uniq_loop out (a # as) =
     uniq_loop (if list_all (\<lambda>o'. \<not> equals a o') out then out @ [a] else out) as"

definition uniq :: "ast list \<Rightarrow> ast list" where
  "uniq xs = uniq_loop [] xs"

fun isUnion :: "ast \<Rightarrow> bool" where
  "isUnion (Union ms a) = True"
| "isUnion _ = False"

fun members :: "ast \<Rightarrow> ast list" where
  "members (Union ms a) = ms"
| "members _ = []"

definition neverKeyword :: "annotations \<Rightarrow> ast" where
  "neverKeyword annotations = NeverKeyword annotations"

definition union :: "ast list \<Rightarrow> annotations \<Rightarrow> ast" where
  "union candidates annotations =
     (let uniq' = uniq (flatMap (\<lambda>ast. if isUnion ast then members ast else [ast]) candidates)
      in if length uniq' = 0 then neverKeyword annotations
         else if length uniq' = 1 then uniq' ! 0
         else Union (sortByWeightDesc uniq') annotations)"

subsection \<open>Remaining node constructors and constants\<close>

definition literalType :: "literal \<Rightarrow> annotations \<Rightarrow> ast" where
  "literalType l annotations = LiteralType l annotations"

definition uniqueSymbol :: "symbol \<Rightarrow> annotations \<Rightarrow> ast" where
  "uniqueSymbol s annotations = UniqueSymbol s annotations"


definition stringKeyword :: "annotations \<Rightarrow> ast" where
  "stringKeyword annotations = StringKeyword annotations"

definition numberKeyword :: "annotations \<Rightarrow> ast" where
  "numberKeyword annotations = NumberKeyword annotations"

definition symbolKeyword :: "annotations \<Rightarrow> ast" where
  "symbolKeyword annotations = SymbolKeyword annotations"


definition string :: ast where
  "string = stringKeyword fmempty"

definition number :: ast where
  "number = numberKeyword fmempty"

definition symbol :: ast where
  "symbol = symbolKeyword fmempty"

definition never :: ast where
  "never = neverKeyword fmempty"

subsection \<open>Appending to a tuple\<close>

definition appendRestElement :: "ast tuple \<Rightarrow> ast \<Rightarrow> annotations \<Rightarrow> error + ast tuple" where
  "appendRestElement ast restElement annotations =
     (if rest ast \<noteq> None
      then Inl (Error ''A rest element cannot follow another rest element. ts(1265)'')
      else Inr (tuple (elements ast) (Some [restElement]) (tuple_isReadonly ast) annotations False))"

definition appendElement :: "ast tuple \<Rightarrow> ast element \<Rightarrow> annotations \<Rightarrow> error + ast tuple" where
  "appendElement ast newElement annotations =
     (if list_ex element_isOptional (elements ast) \<and> \<not> element_isOptional newElement
      then Inl (Error ''A required element cannot follow an optional element. ts(1257)'')
      else case rest ast of
             None \<Rightarrow>
               Inr (tuple (elements ast @ [newElement]) None (tuple_isReadonly ast) annotations False)
           | Some rest' \<Rightarrow>
               if element_isOptional newElement
               then Inl (Error ''An optional element cannot follow a rest element. ts(1266)'')
               else Inr (tuple (elements ast) (Some (rest' @ [element_type newElement]))
                          (tuple_isReadonly ast) annotations False))"

subsection \<open>keyof\<close>

definition getPropertyKeyAST :: "propertyKey \<Rightarrow> ast" where
  "getPropertyKeyAST key =
     (case key of
        PKSymbol s \<Rightarrow> uniqueSymbol s fmempty
      | PKString s \<Rightarrow> literalType (LString s) fmempty
      | PKNumber n \<Rightarrow> literalType (LNumber n) fmempty)"

text \<open>The object \<open>{ string, number, symbol }\<close> of booleans that the loop fills in.\<close>

datatype indexSignaturesKeys =
  Keys (has_string: bool) (has_number: bool) (has_symbol: bool)

fun getIndexSignaturesKeys_loop ::
  "indexSignaturesKeys \<Rightarrow> ast indexSignature list \<Rightarrow> indexSignaturesKeys" where
  "getIndexSignaturesKeys_loop out [] = out"
| "getIndexSignaturesKeys_loop out (i # iss) =
     getIndexSignaturesKeys_loop
       (if is_key i = ISymbol then Keys (has_string out) (has_number out) True
        else if is_key i = INumber then Keys (has_string out) True (has_symbol out)
        else Keys True True (has_symbol out))
       iss"

definition getIndexSignaturesKeys :: "ast indexSignature list \<Rightarrow> indexSignaturesKeys" where
  "getIndexSignaturesKeys iss =
     getIndexSignaturesKeys_loop (Keys False False False) iss"

text \<open>\<open>keys[typeof f.key]\<close>: the entry of the object for the runtime type of a property key.\<close>

definition typeof_key :: "propertyKey \<Rightarrow> indexSignatureKey" where
  "typeof_key key = (case key of PKString s \<Rightarrow> IString | PKNumber n \<Rightarrow> INumber | PKSymbol s \<Rightarrow> ISymbol)"

definition lookup_key :: "indexSignaturesKeys \<Rightarrow> indexSignatureKey \<Rightarrow> bool" where
  "lookup_key keys k = (case k of IString \<Rightarrow> has_string keys | INumber \<Rightarrow> has_number keys | ISymbol \<Rightarrow> has_symbol keys)"

definition getIndexSignatureAST :: "ast indexSignature \<Rightarrow> ast" where
  "getIndexSignatureAST i =
     (if is_key i = ISymbol then symbol
      else if is_key i = INumber then number
      else union [string, number] fmempty)"

text \<open>
  \<open>RA.intersection(that)(self)\<close> of the external library keeps the entries of \<open>self\<close> that
  equal, for the equality of the library, an entry of \<open>that\<close>, in the order of \<open>self\<close>.
\<close>

definition intersection :: "ast list \<Rightarrow> ast list \<Rightarrow> ast list" where
  "intersection that self = filter (\<lambda>a. list_ex (\<lambda>b. equals a b) that) self"

text \<open>
  The Union case of \<open>keyof\<close>, on the results of \<open>keyof\<close> for the members in their order:
  the first member initialises \<open>out\<close>, each later one is intersected into it, and the first
  member that throws ends the computation. The type Union has at least two members; on an
  empty array \<open>members[0]\<close> is \<open>undefined\<close> and reading its \<open>_tag\<close> raises a TypeError.
\<close>

fun keyof_loop :: "ast list \<Rightarrow> (error + ast list) list \<Rightarrow> error + ast list" where
  "keyof_loop out [] = Inr out"
| "keyof_loop out (r # rs) =
     (case r of Inl e \<Rightarrow> Inl e | Inr ks \<Rightarrow> keyof_loop (intersection ks out) rs)"

definition keyof_members :: "(error + ast list) list \<Rightarrow> error + ast list" where
  "keyof_members rs =
     (case rs of
        [] \<Rightarrow> Inl (TypeError ''Cannot read properties of undefined'')
      | r # rs' \<Rightarrow> (case r of Inl e \<Rightarrow> Inl e | Inr out \<Rightarrow> keyof_loop out rs'))"

primrec keyof :: "ast \<Rightarrow> error + ast list" where
  "keyof (TypeAlias ps t a) = keyof t"
| "keyof (NeverKeyword a) = Inr [string, number, symbol]"
| "keyof (AnyKeyword a) = Inr [string, number, symbol]"
| "keyof (UnknownKeyword a) = Inr [never]"
| "keyof (NumberKeyword a) = Inr [never]"
| "keyof (BooleanKeyword a) = Inr [never]"
| "keyof (BigIntKeyword a) = Inr [never]"
| "keyof (SymbolKeyword a) = Inr [never]"
| "keyof (UndefinedKeyword a) = Inr [never]"
| "keyof (UniqueSymbol s a) = Inr [never]"
| "keyof (VoidKeyword a) = Inr [never]"
| "keyof (ObjectKeyword a) = Inr [never]"
| "keyof (Enums es a) = Inr [never]"
| "keyof (Struct s) =
     (let keys = getIndexSignaturesKeys (indexSignatures s);
          fields' = map (\<lambda>f. getPropertyKeyAST (field_key f))
                     (filter (\<lambda>f. lookup_key keys (typeof_key (field_key f)) = False) (fields s))
      in Inr (fields' @ map getIndexSignatureAST (indexSignatures s)))"
| "keyof (Union ms a) = keyof_members (map keyof ms)"
| "keyof (Lazy r f a) = keyof (f ())"
| "keyof (Refinement t p m a) = keyof t"
| "keyof (StringKeyword a) = Inl (Error ''cannot `keyof` on this AST'')"
| "keyof (LiteralType l a) = Inl (Error ''cannot `keyof` on this AST'')"
| "keyof (Tuple t) = Inl (Error ''cannot `keyof` on this AST'')"

subsection \<open>record\<close>

text \<open>
  The inner function \<open>go\<close> pushes onto the two local arrays; the model threads them as a
  pair and stops at the first throw. \<open>forEach\<close> runs the calls for the members in order.
  The message of the default branch quotes the tag of the offending node.
\<close>

type_synonym record_state = "ast field list \<times> ast indexSignature list"

definition quoted :: "string \<Rightarrow> string" where
  "quoted s = [CHR 0x27] @ s @ [CHR 0x27]"

definition constraintError :: "ast \<Rightarrow> error" where
  "constraintError key =
     Error (''Type '' @ quoted (tag key) @ '' does not satisfy the constraint ''
            @ quoted ''string | number | symbol'' @ ''. ts(2344)'')"

fun forEach :: "('s \<Rightarrow> error + 's) list \<Rightarrow> 's \<Rightarrow> error + 's" where
  "forEach [] st = Inr st"
| "forEach (g # gs) st = (case g st of Inl e \<Rightarrow> Inl e | Inr st' \<Rightarrow> forEach gs st')"

primrec go :: "ast \<Rightarrow> ast \<Rightarrow> bool \<Rightarrow> record_state \<Rightarrow> error + record_state" where
  "go (NeverKeyword a) val isReadonly st = Inr st"
| "go (StringKeyword a) val isReadonly st =
     Inr (fst st, snd st @ [indexSignature IString val isReadonly fmempty])"
| "go (NumberKeyword a) val isReadonly st =
     Inr (fst st, snd st @ [indexSignature INumber val isReadonly fmempty])"
| "go (SymbolKeyword a) val isReadonly st =
     Inr (fst st, snd st @ [indexSignature ISymbol val isReadonly fmempty])"
| "go (LiteralType l a) val isReadonly st =
     (case l of
        LString s \<Rightarrow> Inr (fst st @ [field (PKString s) val False isReadonly fmempty], snd st)
      | LNumber n \<Rightarrow> Inr (fst st @ [field (PKNumber n) val False isReadonly fmempty], snd st)
      | _ \<Rightarrow> Inr st)"
| "go (UniqueSymbol s a) val isReadonly st =
     Inr (fst st @ [field (PKSymbol s) val False isReadonly fmempty], snd st)"
| "go (Union ms a) val isReadonly st = forEach (map (\<lambda>m. go m val isReadonly) ms) st"
| "go (Refinement t p m a) val isReadonly st =
     Inl (Error ''cannot handle refinements in `record`'')"
| "go (TypeAlias ps t a) val isReadonly st = Inl (constraintError (TypeAlias ps t a))"
| "go (UndefinedKeyword a) val isReadonly st = Inl (constraintError (UndefinedKeyword a))"
| "go (VoidKeyword a) val isReadonly st = Inl (constraintError (VoidKeyword a))"
| "go (UnknownKeyword a) val isReadonly st = Inl (constraintError (UnknownKeyword a))"
| "go (AnyKeyword a) val isReadonly st = Inl (constraintError (AnyKeyword a))"
| "go (BooleanKeyword a) val isReadonly st = Inl (constraintError (BooleanKeyword a))"
| "go (BigIntKeyword a) val isReadonly st = Inl (constraintError (BigIntKeyword a))"
| "go (ObjectKeyword a) val isReadonly st = Inl (constraintError (ObjectKeyword a))"
| "go (Tuple t) val isReadonly st = Inl (constraintError (Tuple t))"
| "go (Struct s) val isReadonly st = Inl (constraintError (Struct s))"
| "go (Lazy r f a) val isReadonly st = Inl (constraintError (Lazy r f a))"
| "go (Enums es a) val isReadonly st = Inl (constraintError (Enums es a))"

definition record_ast :: "ast \<Rightarrow> ast \<Rightarrow> bool \<Rightarrow> error + ast struct" where
  "record_ast key val isReadonly =
     (case go key val isReadonly ([], []) of
        Inl e \<Rightarrow> Inl e
      | Inr st \<Rightarrow> Inr (struct (fst st) (snd st) fmempty False))"

subsection \<open>partial\<close>


section \<open>The error model (the ParseResult module)\<close>

text \<open>
  \<open>NonEmptyReadonlyArray<A>\<close> is the type \<open>readonly [A, ...Array<A>]\<close>: a first entry
  and the array of the others. The model follows the static types of the module, which is
  where the module states that these sequences are not empty; a \<open>ParseResult\<close> is modelled
  in its immediate form, an \<open>Either\<close> with the error on the left.
\<close>

datatype 'a nonEmptyReadonlyArray =
  NonEmptyReadonlyArray (headNonEmpty: 'a) (tailNonEmpty: "'a list")

definition toReadonlyArray :: "'a nonEmptyReadonlyArray \<Rightarrow> 'a list" where
  "toReadonlyArray es = headNonEmpty es # tailNonEmpty es"

datatype parseErrors =
    Type ast unknown "string option"
  | Index int "parseErrors nonEmptyReadonlyArray"
  | Key propertyKey "parseErrors nonEmptyReadonlyArray"
  | Missing
  | Unexpected unknown
  | UnionMember "parseErrors nonEmptyReadonlyArray"
  | Forbidden

datatype parseError = ParseError (errors: "parseErrors nonEmptyReadonlyArray")

type_synonym 'a parseResult = "parseError + 'a"

definition parseError :: "parseErrors nonEmptyReadonlyArray \<Rightarrow> parseError" where
  "parseError es = ParseError es"

definition type :: "ast \<Rightarrow> unknown \<Rightarrow> string option \<Rightarrow> parseErrors" where
  "type expected actual message = Type expected actual message"

definition forbidden :: parseErrors where
  "forbidden = Forbidden"

definition index :: "int \<Rightarrow> parseErrors nonEmptyReadonlyArray \<Rightarrow> parseErrors" where
  "index i es = Index i es"

definition key :: "propertyKey \<Rightarrow> parseErrors nonEmptyReadonlyArray \<Rightarrow> parseErrors" where
  "key k es = Key k es"

definition missing :: parseErrors where
  "missing = Missing"

definition unexpected :: "unknown \<Rightarrow> parseErrors" where
  "unexpected actual = Unexpected actual"

definition unionMember :: "parseErrors nonEmptyReadonlyArray \<Rightarrow> parseErrors" where
  "unionMember es = UnionMember es"

definition success :: "'a \<Rightarrow> 'a parseResult" where
  "success a = Inr a"

definition fail :: "parseError \<Rightarrow> 'a parseResult" where
  "fail e = Inl e"

definition failure :: "parseErrors \<Rightarrow> 'a parseResult" where
  "failure e = fail (parseError (NonEmptyReadonlyArray e []))"

definition failures :: "parseErrors nonEmptyReadonlyArray \<Rightarrow> 'a parseResult" where
  "failures es = Inl (parseError es)"

section \<open>Notions of the specification used to state the properties\<close>

text \<open>
  The members that a list of candidates contributes to a union, in the words of the
  specification: a candidate that is itself a union contributes its members, any other
  candidate contributes itself.
\<close>

definition candidate_members :: "ast list \<Rightarrow> ast list" where
  "candidate_members cs = concat (map (\<lambda>c. case c of Union ms a \<Rightarrow> ms | _ \<Rightarrow> [c]) cs)"

text \<open>
  An index-signature domain covers a property key when it is the type of the key; the
  string domain covers number keys as well (\<open>keyof { [x: string]: ... }\<close> is
  \<open>string | number\<close>).
\<close>

definition covers :: "indexSignatureKey \<Rightarrow> propertyKey \<Rightarrow> bool" where
  "covers d k = (d = typeof_key k \<or> (d = IString \<and> typeof_key k = INumber))"


text \<open>
  The sequence that a composite error wraps, and the property that no composite error
  anywhere inside an error wraps an empty sequence.
\<close>

fun wrapped :: "parseErrors \<Rightarrow> parseErrors list" where
  "wrapped (Index i es) = toReadonlyArray es"
| "wrapped (Key k es) = toReadonlyArray es"
| "wrapped (UnionMember es) = toReadonlyArray es"
| "wrapped e = []"

fun isComposite :: "parseErrors \<Rightarrow> bool" where
  "isComposite (Index i es) = True"
| "isComposite (Key k es) = True"
| "isComposite (UnionMember es) = True"
| "isComposite e = False"

primrec nonEmptyEverywhere :: "parseErrors \<Rightarrow> bool" where
  "nonEmptyEverywhere (Type expected actual message) = True"
| "nonEmptyEverywhere (Index i es) =
     (toReadonlyArray es \<noteq> []
      \<and> list_all id (toReadonlyArray (map_nonEmptyReadonlyArray nonEmptyEverywhere es)))"
| "nonEmptyEverywhere (Key k es) =
     (toReadonlyArray es \<noteq> []
      \<and> list_all id (toReadonlyArray (map_nonEmptyReadonlyArray nonEmptyEverywhere es)))"
| "nonEmptyEverywhere Missing = True"
| "nonEmptyEverywhere (Unexpected actual) = True"
| "nonEmptyEverywhere (UnionMember es) =
     (toReadonlyArray es \<noteq> []
      \<and> list_all id (toReadonlyArray (map_nonEmptyReadonlyArray nonEmptyEverywhere es)))"
| "nonEmptyEverywhere Forbidden = True"



section \<open>The union constructor\<close>

lemma equals_refl: "equals x x"
  by (simp add: equals_def)

lemma equals_sym: "equals x y \<Longrightarrow> equals y x"
  by (simp add: equals_def)

lemma equals_trans: "equals x y \<Longrightarrow> equals y z \<Longrightarrow> equals x z"
  by (simp add: equals_def)

lemma equals_Lazy: "equals (Lazy r f a) (Lazy r' f' a') = (r = r' \<and> a = a')"
  by (auto simp: equals_def)

lemma not_equals_iff: "list_all (\<lambda>o'. \<not> equals a o') out = (erase a \<notin> erase ` set out)"
  by (auto simp: list_all_iff equals_def)

lemma uniq_loop_erase_set:
  "erase ` set (uniq_loop out xs) = erase ` set out \<union> erase ` set xs"
  by (induction xs arbitrary: out) (auto simp: not_equals_iff)

lemma uniq_loop_erase_distinct:
  "distinct (map erase out) \<Longrightarrow> distinct (map erase (uniq_loop out xs))"
  by (induction xs arbitrary: out) (auto simp: not_equals_iff)

lemma uniq_loop_subset: "set (uniq_loop out xs) \<subseteq> set out \<union> set xs"
proof (induction xs arbitrary: out)
  case Nil
  then show ?case by simp
next
  case (Cons a as)
  have "set (uniq_loop (if list_all (\<lambda>o'. \<not> equals a o') out then out @ [a] else out) as)
          \<subseteq> set (if list_all (\<lambda>o'. \<not> equals a o') out then out @ [a] else out) \<union> set as"
    by (rule Cons.IH)
  then show ?case by (auto split: if_splits)
qed

lemma uniq_loop_prefix: "\<exists>ys. uniq_loop out xs = out @ ys"
proof (induction xs arbitrary: out)
  case Nil
  then show ?case by simp
next
  case (Cons a as)
  obtain ys where
    "uniq_loop (if list_all (\<lambda>o'. \<not> equals a o') out then out @ [a] else out) as
       = (if list_all (\<lambda>o'. \<not> equals a o') out then out @ [a] else out) @ ys"
    using Cons.IH by blast
  then show ?case by (cases "list_all (\<lambda>o'. \<not> equals a o') out") simp_all
qed

lemma uniq_erase_set: "erase ` set (uniq xs) = erase ` set xs"
  by (simp add: uniq_def uniq_loop_erase_set)

lemma uniq_erase_distinct: "distinct (map erase (uniq xs))"
  by (simp add: uniq_def uniq_loop_erase_distinct)

lemma uniq_subset: "set (uniq xs) \<subseteq> set xs"
  using uniq_loop_subset [of "[]" xs] by (simp add: uniq_def)

lemma uniq_Nil: "uniq [] = []"
  by (simp add: uniq_def)

lemma uniq_hd: "xs \<noteq> [] \<Longrightarrow> uniq xs \<noteq> [] \<and> hd (uniq xs) = hd xs"
proof -
  assume "xs \<noteq> []"
  then obtain x xs' where xs: "xs = x # xs'" by (cases xs) auto
  obtain ys where "uniq_loop [x] xs' = [x] @ ys" using uniq_loop_prefix by blast
  then show ?thesis by (simp add: uniq_def xs)
qed

lemma uniq_length_card: "length (uniq xs) = card (erase ` set xs)"
proof -
  have "length (uniq xs) = length (map erase (uniq xs))" by simp
  also have "\<dots> = card (set (map erase (uniq xs)))"
    using uniq_erase_distinct [of xs] by (simp only: distinct_card)
  also have "\<dots> = card (erase ` set xs)"
    by (simp add: uniq_erase_set)
  finally show ?thesis .
qed

lemma flatten_eq:
  "flatMap (\<lambda>ast. if isUnion ast then members ast else [ast]) cs = candidate_members cs"
proof -
  have "(\<lambda>ast. if isUnion ast then members ast else [ast]) = (\<lambda>c. case c of Union ms a \<Rightarrow> ms | _ \<Rightarrow> [c])"
  proof
    fix c show "(if isUnion c then members c else [c]) = (case c of Union ms a \<Rightarrow> ms | _ \<Rightarrow> [c])"
      by (cases c) simp_all
  qed
  then show ?thesis by (simp add: flatMap_def candidate_members_def)
qed

lemma sorted_desc_sortByWeightDesc:
  "sorted_wrt (\<lambda>x y. getWeight y \<le> getWeight x) (sortByWeightDesc xs)"
proof -
  have "sorted (map (\<lambda>a. - int (getWeight a)) (sortByWeightDesc xs))"
    by (simp add: sortByWeightDesc_def)
  then show ?thesis
    by (simp add: sorted_map sorted_wrt_iff_nth_less)
qed

lemma foldl_add_sum_list: "foldl (\<lambda>n w. n + w) (k::nat) ws = k + sum_list ws"
  by (induction ws arbitrary: k) simp_all

lemma getWeight_other:
  "tag x \<notin> {''TypeAlias'', ''Tuple'', ''Struct'', ''Union'', ''Lazy''} \<Longrightarrow> getWeight x = 0"
  by (cases x) simp_all

lemma union_cases:
  "union cs a =
     (if candidate_members cs = [] then NeverKeyword a
      else if length (uniq (candidate_members cs)) = 1 then hd (candidate_members cs)
      else Union (sortByWeightDesc (uniq (candidate_members cs))) a)"
proof (cases "candidate_members cs = []")
  case True
  then show ?thesis by (simp add: union_def flatten_eq uniq_Nil neverKeyword_def)
next
  case False
  from uniq_hd [OF False] have ne: "uniq (candidate_members cs) \<noteq> []"
    and h: "hd (uniq (candidate_members cs)) = hd (candidate_members cs)" by simp_all
  from ne have "uniq (candidate_members cs) ! 0 = hd (candidate_members cs)"
    using h by (simp add: hd_conv_nth)
  with False ne show ?thesis
    by (simp add: union_def flatten_eq Let_def)
qed

text \<open>
  Claim C1. For every list of candidates, the union constructor works on the members the
  candidates contribute (a candidate that is a union contributes its members) and removes
  the duplicates, the members equal to an earlier one for the structural equality of the
  library (which compares the producers of Lazy nodes by reference and annotations key by
  key). With no member it returns a \<open>never\<close> keyword carrying the annotations passed. When
  all members are equal, so that exactly one remains, it returns that member itself, the
  first one. Otherwise it returns a Union whose members are taken from those members, no
  two of them equal and every contributed member equal to one of them, sorted descending
  by weight. The weight of a Tuple is its element count plus one if it has a rest, of a
  Struct its field count plus its index-signature count, of a Union the sum of the weights
  of its members, of a Lazy node 10, of a TypeAlias the weight of the wrapped type, and of
  every other node 0.
\<close>

theorem union_construction:
  "(candidate_members cs = [] \<longrightarrow> union cs a = NeverKeyword a)
   \<and> (candidate_members cs \<noteq> []
        \<and> (\<forall>m \<in> set (candidate_members cs). equals m (hd (candidate_members cs)))
        \<longrightarrow> union cs a = hd (candidate_members cs))
   \<and> ((\<exists>m \<in> set (candidate_members cs). \<exists>m' \<in> set (candidate_members cs). \<not> equals m m') \<longrightarrow>
        (\<exists>ms. union cs a = Union ms a
              \<and> 2 \<le> length ms
              \<and> set ms \<subseteq> set (candidate_members cs)
              \<and> (\<forall>m \<in> set (candidate_members cs). \<exists>m' \<in> set ms. equals m m')
              \<and> (\<forall>i < length ms. \<forall>j < length ms. i \<noteq> j \<longrightarrow> \<not> equals (ms ! i) (ms ! j))
              \<and> sorted_wrt (\<lambda>x y. getWeight y \<le> getWeight x) ms))
   \<and> equals x x
   \<and> (equals x y \<longrightarrow> equals y x)
   \<and> (equals x y \<and> equals y z \<longrightarrow> equals x z)
   \<and> equals (Lazy r f b) (Lazy r' f' b') = (r = r' \<and> b = b')
   \<and> (erase x = x \<and> erase y = y \<longrightarrow> equals x y = (x = y))
   \<and> getWeight (Tuple t) = length (elements t) + (if rest t = None then 0 else 1)
   \<and> getWeight (Struct s) = length (fields s) + length (indexSignatures s)
   \<and> getWeight (Union ms' a') = sum_list (map getWeight ms')
   \<and> getWeight (Lazy r f a') = 10
   \<and> getWeight (TypeAlias ps ty a') = getWeight ty
   \<and> (tag x \<notin> {''TypeAlias'', ''Tuple'', ''Struct'', ''Union'', ''Lazy''} \<longrightarrow> getWeight x = 0)"
proof -
  let ?M = "candidate_members cs"
  define u where "u = uniq ?M"
  have u_set: "erase ` set u = erase ` set ?M" and u_dist: "distinct (map erase u)"
    and u_sub: "set u \<subseteq> set ?M" and u_len: "length u = card (erase ` set ?M)"
    by (simp_all add: u_def uniq_erase_set uniq_erase_distinct uniq_subset uniq_length_card)
  have un: "union cs a = (if ?M = [] then NeverKeyword a
                          else if length u = 1 then hd ?M
                          else Union (sortByWeightDesc u) a)"
    by (simp add: union_cases u_def)
  have c0: "?M = [] \<longrightarrow> union cs a = NeverKeyword a"
    using un by simp
  have c1: "?M \<noteq> [] \<and> (\<forall>m \<in> set ?M. equals m (hd ?M)) \<longrightarrow> union cs a = hd ?M"
  proof
    assume h: "?M \<noteq> [] \<and> (\<forall>m \<in> set ?M. equals m (hd ?M))"
    then have hdM: "hd ?M \<in> set ?M" by simp
    have "erase ` set ?M = {erase (hd ?M)}"
    proof
      show "erase ` set ?M \<subseteq> {erase (hd ?M)}"
      proof
        fix e assume "e \<in> erase ` set ?M"
        then obtain m where "m \<in> set ?M" "e = erase m" by blast
        with h have "e = erase (hd ?M)" unfolding equals_def by blast
        then show "e \<in> {erase (hd ?M)}" by simp
      qed
      show "{erase (hd ?M)} \<subseteq> erase ` set ?M" using hdM by blast
    qed
    then have "length u = 1" using u_len by simp
    then show "union cs a = hd ?M" using un h by simp
  qed
  have c2: "(\<exists>m \<in> set ?M. \<exists>m' \<in> set ?M. \<not> equals m m') \<longrightarrow>
        (\<exists>ms. union cs a = Union ms a
              \<and> 2 \<le> length ms
              \<and> set ms \<subseteq> set ?M
              \<and> (\<forall>m \<in> set ?M. \<exists>m' \<in> set ms. equals m m')
              \<and> (\<forall>i < length ms. \<forall>j < length ms. i \<noteq> j \<longrightarrow> \<not> equals (ms ! i) (ms ! j))
              \<and> sorted_wrt (\<lambda>x y. getWeight y \<le> getWeight x) ms)"
  proof
    assume "\<exists>m \<in> set ?M. \<exists>m' \<in> set ?M. \<not> equals m m'"
    then obtain m m' where mm: "m \<in> set ?M" "m' \<in> set ?M" "erase m \<noteq> erase m'"
      unfolding equals_def by blast
    then have "{erase m, erase m'} \<subseteq> erase ` set ?M" by blast
    then have "card {erase m, erase m'} \<le> card (erase ` set ?M)"
      by (intro card_mono) simp_all
    with mm(3) have len: "2 \<le> length u" using u_len by simp
    from mm(1) have ne: "?M \<noteq> []" by auto
    let ?ms = "sortByWeightDesc u"
    have r: "union cs a = Union ?ms a" using un len ne by simp
    have l: "2 \<le> length ?ms" using len by (simp add: sortByWeightDesc_def)
    have s: "set ?ms \<subseteq> set ?M" using u_sub by (simp add: sortByWeightDesc_def)
    have cov: "\<forall>m \<in> set ?M. \<exists>m' \<in> set ?ms. equals m m'"
    proof
      fix m assume "m \<in> set ?M"
      then have "erase m \<in> erase ` set u" using u_set by simp
      then obtain m' where m': "m' \<in> set u" "erase m = erase m'" by blast
      from m'(1) have "m' \<in> set ?ms" by (simp add: sortByWeightDesc_def)
      with m'(2) show "\<exists>m' \<in> set ?ms. equals m m'"
        unfolding equals_def by blast
    qed
    have "mset (map erase ?ms) = mset (map erase u)"
      by (simp add: sortByWeightDesc_def)
    then have d: "distinct (map erase ?ms)"
      using u_dist by (metis mset_eq_imp_distinct_iff)
    have pw: "\<forall>i < length ?ms. \<forall>j < length ?ms. i \<noteq> j \<longrightarrow> \<not> equals (?ms ! i) (?ms ! j)"
    proof (intro allI impI)
      fix i j assume ij: "i < length ?ms" "j < length ?ms" "i \<noteq> j"
      then have "i < length (map erase ?ms)" "j < length (map erase ?ms)" by simp_all
      with d ij(3) have "map erase ?ms ! i \<noteq> map erase ?ms ! j"
        by (simp only: nth_eq_iff_index_eq) simp
      with ij show "\<not> equals (?ms ! i) (?ms ! j)" by (simp add: equals_def)
    qed
    show "\<exists>ms. union cs a = Union ms a
              \<and> 2 \<le> length ms
              \<and> set ms \<subseteq> set ?M
              \<and> (\<forall>m \<in> set ?M. \<exists>m' \<in> set ms. equals m m')
              \<and> (\<forall>i < length ms. \<forall>j < length ms. i \<noteq> j \<longrightarrow> \<not> equals (ms ! i) (ms ! j))
              \<and> sorted_wrt (\<lambda>x y. getWeight y \<le> getWeight x) ms"
      using r l s cov pw sorted_desc_sortByWeightDesc by blast
  qed
  have e1: "equals x x" by (rule equals_refl)
  have e2: "equals x y \<longrightarrow> equals y x" using equals_sym by blast
  have e3: "equals x y \<and> equals y z \<longrightarrow> equals x z" using equals_trans by blast
  have e4: "equals (Lazy r f b) (Lazy r' f' b') = (r = r' \<and> b = b')" by (rule equals_Lazy)
  have e5: "erase x = x \<and> erase y = y \<longrightarrow> equals x y = (x = y)" by (simp add: equals_def)
  have w1: "getWeight (Tuple t) = length (elements t) + (if rest t = None then 0 else 1)" by simp
  have w2: "getWeight (Struct s) = length (fields s) + length (indexSignatures s)" by simp
  have w3: "getWeight (Union ms' a') = sum_list (map getWeight ms')"
    by (simp add: foldl_add_sum_list)
  have w4: "getWeight (Lazy r f a') = 10" by simp
  have w5: "getWeight (TypeAlias ps ty a') = getWeight ty" by simp
  have w6: "tag x \<notin> {''TypeAlias'', ''Tuple'', ''Struct'', ''Union'', ''Lazy''} \<longrightarrow> getWeight x = 0"
    using getWeight_other by blast
  show ?thesis
    by (intro conjI) (fact c0 c1 c2 e1 e2 e3 e4 e5 w1 w2 w3 w4 w5 w6)+
qed

theorem union_construction_witness:
  "union [Lazy (Reference 1) (\<lambda>u. NumberKeyword fmempty) fmempty,
          Lazy (Reference 2) (\<lambda>u. NumberKeyword fmempty) fmempty] fmempty
     = Union [Lazy (Reference 1) (\<lambda>u. NumberKeyword fmempty) fmempty,
              Lazy (Reference 2) (\<lambda>u. NumberKeyword fmempty) fmempty] fmempty
   \<and> union [StringKeyword (fmupd (PKString ''a'') UNull (fmupd (PKString ''b'') UUndefined fmempty)),
            StringKeyword (fmupd (PKString ''b'') UUndefined (fmupd (PKString ''a'') UNull fmempty))]
        fmempty
     = StringKeyword (fmupd (PKString ''a'') UNull (fmupd (PKString ''b'') UUndefined fmempty))
   \<and> union [] (fmupd (PKString ''id'') UNull fmempty)
     = NeverKeyword (fmupd (PKString ''id'') UNull fmempty)
   \<and> union [Union [StringKeyword fmempty, NumberKeyword fmempty] fmempty,
            Struct (MkStruct [Field (PKString ''a'') (StringKeyword fmempty) False False fmempty]
                      [] fmempty False),
            StringKeyword fmempty] fmempty
     = Union [Struct (MkStruct [Field (PKString ''a'') (StringKeyword fmempty) False False fmempty]
                        [] fmempty False),
              StringKeyword fmempty, NumberKeyword fmempty] fmempty
   \<and> getWeight (BooleanKeyword fmempty) = 0"
proof -
  let ?L1 = "Lazy (Reference 1) (\<lambda>u. NumberKeyword fmempty) fmempty"
  let ?L2 = "Lazy (Reference 2) (\<lambda>u. NumberKeyword fmempty) fmempty"
  let ?S1 = "StringKeyword (fmupd (PKString ''a'') UNull (fmupd (PKString ''b'') UUndefined fmempty))"
  let ?S2 = "StringKeyword (fmupd (PKString ''b'') UUndefined (fmupd (PKString ''a'') UNull fmempty))"
  have m1: "candidate_members [?L1, ?L2] = [?L1, ?L2]"
    by (simp add: candidate_members_def)
  have h1: "\<exists>m \<in> set (candidate_members [?L1, ?L2]).
              \<exists>m' \<in> set (candidate_members [?L1, ?L2]). \<not> equals m m'"
    unfolding m1 by (intro bexI [of _ ?L1] bexI [of _ ?L2]) (simp_all add: equals_def)
  from union_construction [of "[?L1, ?L2]" fmempty, THEN conjunct2, THEN conjunct2,
      THEN conjunct1, THEN mp, OF h1]
  obtain ms where ms: "union [?L1, ?L2] fmempty = Union ms fmempty" "2 \<le> length ms"
    by (elim exE conjE)
  have r1: "union [?L1, ?L2] fmempty = Union [?L1, ?L2] fmempty"
    by (simp add: union_def flatMap_def uniq_def equals_def sortByWeightDesc_def)
  have m2: "candidate_members [?S1, ?S2] = [?S1, ?S2]"
    by (simp add: candidate_members_def)
  have h2: "candidate_members [?S1, ?S2] \<noteq> []
        \<and> (\<forall>m \<in> set (candidate_members [?S1, ?S2]). equals m (hd (candidate_members [?S1, ?S2])))"
    unfolding m2 by (simp add: equals_def fmupd_reorder_neq)
  have "union [?S1, ?S2] fmempty = hd (candidate_members [?S1, ?S2])"
    by (rule union_construction [of "[?S1, ?S2]" fmempty, THEN conjunct2, THEN conjunct1,
          THEN mp, OF h2])
  then have r2: "union [?S1, ?S2] fmempty = ?S1" unfolding m2 by simp
  have h3: "candidate_members [] = []" by (simp add: candidate_members_def)
  have r3: "union [] (fmupd (PKString ''id'') UNull fmempty)
     = NeverKeyword (fmupd (PKString ''id'') UNull fmempty)"
    by (rule union_construction [of "[]" "fmupd (PKString ''id'') UNull fmempty",
          THEN conjunct1, THEN mp, OF h3])
  have r4: "union [Union [StringKeyword fmempty, NumberKeyword fmempty] fmempty,
            Struct (MkStruct [Field (PKString ''a'') (StringKeyword fmempty) False False fmempty]
                      [] fmempty False),
            StringKeyword fmempty] fmempty
     = Union [Struct (MkStruct [Field (PKString ''a'') (StringKeyword fmempty) False False fmempty]
                        [] fmempty False),
              StringKeyword fmempty, NumberKeyword fmempty] fmempty"
    by (simp add: union_def flatMap_def uniq_def equals_def sortByWeightDesc_def)
  have t: "tag (BooleanKeyword fmempty) \<notin> {''TypeAlias'', ''Tuple'', ''Struct'', ''Union'', ''Lazy''}"
    by simp
  have r5: "getWeight (BooleanKeyword fmempty) = 0"
    by (rule union_construction [where x = "BooleanKeyword fmempty", THEN conjunct2,
          THEN conjunct2, THEN conjunct2, THEN conjunct2, THEN conjunct2, THEN conjunct2,
          THEN conjunct2, THEN conjunct2, THEN conjunct2, THEN conjunct2, THEN conjunct2,
          THEN conjunct2, THEN conjunct2, THEN mp, OF t])
  show ?thesis by (intro conjI) (fact r1 r2 r3 r4 r5)+
qed


section \<open>The struct constructor\<close>

lemma map_sort_key: "map f (sort_key f xs) = sort (map f xs)"
  by (rule sym, rule properties_for_sort) simp_all

lemma sort_mset_cong: "mset xs = mset ys \<Longrightarrow> sort xs = sort ys"
  by (rule properties_for_sort) simp_all

lemma getCardinality_other:
  "tag x \<notin> {''TypeAlias'', ''NeverKeyword'', ''LiteralType'', ''UndefinedKeyword'', ''UniqueSymbol'',
             ''BooleanKeyword'', ''StringKeyword'', ''NumberKeyword'', ''BigIntKeyword'',
             ''SymbolKeyword'', ''UnknownKeyword'', ''AnyKeyword''} \<Longrightarrow> getCardinality x = 5"
  by (cases x) simp_all

text \<open>
  Claim C2. For every list of fields and every list of index signatures, the struct
  constructor stores the same entries, both sequences sorted ascending by the cardinality
  of the entry's value type; the sequence of cardinalities stored does not depend on the
  order in which the caller supplied the entries. The cardinality is 0 for Never, 1 for
  Literal, Undefined and UniqueSymbol, 2 for Boolean, 3 for String, Number, BigInt and
  Symbol, 4 for Unknown and Any, the cardinality of the wrapped type for a TypeAlias, and
  5 for every other node.
\<close>

theorem struct_sorted_by_cardinality:
  "sorted (map (\<lambda>f. getCardinality (field_value f)) (fields (struct fs iss a au)))
   \<and> sorted (map (\<lambda>i. getCardinality (is_value i)) (indexSignatures (struct fs iss a au)))
   \<and> mset (fields (struct fs iss a au)) = mset fs
   \<and> mset (indexSignatures (struct fs iss a au)) = mset iss
   \<and> (mset fs' = mset fs \<and> mset iss' = mset iss \<longrightarrow>
        map (\<lambda>f. getCardinality (field_value f)) (fields (struct fs' iss' a au))
          = map (\<lambda>f. getCardinality (field_value f)) (fields (struct fs iss a au))
        \<and> map (\<lambda>i. getCardinality (is_value i)) (indexSignatures (struct fs' iss' a au))
          = map (\<lambda>i. getCardinality (is_value i)) (indexSignatures (struct fs iss a au)))
   \<and> getCardinality (NeverKeyword b) = 0
   \<and> getCardinality (LiteralType l b) = 1
   \<and> getCardinality (UndefinedKeyword b) = 1
   \<and> getCardinality (UniqueSymbol sy b) = 1
   \<and> getCardinality (BooleanKeyword b) = 2
   \<and> getCardinality (StringKeyword b) = 3
   \<and> getCardinality (NumberKeyword b) = 3
   \<and> getCardinality (BigIntKeyword b) = 3
   \<and> getCardinality (SymbolKeyword b) = 3
   \<and> getCardinality (UnknownKeyword b) = 4
   \<and> getCardinality (AnyKeyword b) = 4
   \<and> getCardinality (TypeAlias ps ty b) = getCardinality ty
   \<and> (tag x \<notin> {''TypeAlias'', ''NeverKeyword'', ''LiteralType'', ''UndefinedKeyword'',
                 ''UniqueSymbol'', ''BooleanKeyword'', ''StringKeyword'', ''NumberKeyword'',
                 ''BigIntKeyword'', ''SymbolKeyword'', ''UnknownKeyword'', ''AnyKeyword''}
        \<longrightarrow> getCardinality x = 5)"
proof -
  have s1: "sorted (map (\<lambda>f. getCardinality (field_value f)) (fields (struct fs iss a au)))"
    by (simp add: struct_def sortByCardinalityAsc_fields_def)
  have s2: "sorted (map (\<lambda>i. getCardinality (is_value i)) (indexSignatures (struct fs iss a au)))"
    by (simp add: struct_def sortByCardinalityAsc_indexSignatures_def)
  have m1: "mset (fields (struct fs iss a au)) = mset fs"
    by (simp add: struct_def sortByCardinalityAsc_fields_def)
  have m2: "mset (indexSignatures (struct fs iss a au)) = mset iss"
    by (simp add: struct_def sortByCardinalityAsc_indexSignatures_def)
  have p: "mset fs' = mset fs \<and> mset iss' = mset iss \<longrightarrow>
        map (\<lambda>f. getCardinality (field_value f)) (fields (struct fs' iss' a au))
          = map (\<lambda>f. getCardinality (field_value f)) (fields (struct fs iss a au))
        \<and> map (\<lambda>i. getCardinality (is_value i)) (indexSignatures (struct fs' iss' a au))
          = map (\<lambda>i. getCardinality (is_value i)) (indexSignatures (struct fs iss a au))"
  proof
    assume h: "mset fs' = mset fs \<and> mset iss' = mset iss"
    then have "mset (map (\<lambda>f. getCardinality (field_value f)) fs')
                 = mset (map (\<lambda>f. getCardinality (field_value f)) fs)"
      and "mset (map (\<lambda>i. getCardinality (is_value i)) iss')
                 = mset (map (\<lambda>i. getCardinality (is_value i)) iss)"
      by simp_all
    then show "map (\<lambda>f. getCardinality (field_value f)) (fields (struct fs' iss' a au))
          = map (\<lambda>f. getCardinality (field_value f)) (fields (struct fs iss a au))
        \<and> map (\<lambda>i. getCardinality (is_value i)) (indexSignatures (struct fs' iss' a au))
          = map (\<lambda>i. getCardinality (is_value i)) (indexSignatures (struct fs iss a au))"
      by (simp add: struct_def sortByCardinalityAsc_fields_def
            sortByCardinalityAsc_indexSignatures_def map_sort_key sort_mset_cong)
  qed
  show ?thesis using s1 s2 m1 m2 p getCardinality_other by simp
qed

theorem struct_sorted_by_cardinality_witness:
  "mset [Field (PKString ''a'') (LiteralType (LNumber 1) fmempty) False False fmempty,
         Field (PKString ''c'') (StringKeyword fmempty) False False fmempty]
     = mset [Field (PKString ''c'') (StringKeyword fmempty) False False fmempty,
             Field (PKString ''a'') (LiteralType (LNumber 1) fmempty) False False fmempty]
   \<and> map (\<lambda>f. getCardinality (field_value f))
        (fields (struct [Field (PKString ''a'') (LiteralType (LNumber 1) fmempty) False False fmempty,
                         Field (PKString ''c'') (StringKeyword fmempty) False False fmempty] [] fmempty False))
     = map (\<lambda>f. getCardinality (field_value f))
        (fields (struct [Field (PKString ''c'') (StringKeyword fmempty) False False fmempty,
                         Field (PKString ''a'') (LiteralType (LNumber 1) fmempty) False False fmempty] [] fmempty False))
   \<and> fields (struct [Field (PKString ''c'') (StringKeyword fmempty) False False fmempty,
                      Field (PKString ''a'') (LiteralType (LNumber 1) fmempty) False False fmempty] [] fmempty False)
     = [Field (PKString ''a'') (LiteralType (LNumber 1) fmempty) False False fmempty,
        Field (PKString ''c'') (StringKeyword fmempty) False False fmempty]
   \<and> getCardinality (ObjectKeyword fmempty) = 5"
proof -
  let ?fa = "Field (PKString ''a'') (LiteralType (LNumber 1) fmempty) False False fmempty"
  let ?fc = "Field (PKString ''c'') (StringKeyword fmempty) False False fmempty"
  have h: "mset [?fa, ?fc] = mset [?fc, ?fa] \<and> mset ([]::ast indexSignature list) = mset []"
    by simp
  from struct_sorted_by_cardinality [of "[?fc, ?fa]" "[]" fmempty False "[?fa, ?fc]" "[]"] h
  have r: "map (\<lambda>f. getCardinality (field_value f)) (fields (struct [?fa, ?fc] [] fmempty False))
     = map (\<lambda>f. getCardinality (field_value f)) (fields (struct [?fc, ?fa] [] fmempty False))"
    by blast
  have ev: "fields (struct [?fc, ?fa] [] fmempty False) = [?fa, ?fc]"
    by (simp add: struct_def sortByCardinalityAsc_fields_def)
  have t: "tag (ObjectKeyword fmempty) \<notin> {''TypeAlias'', ''NeverKeyword'', ''LiteralType'', ''UndefinedKeyword'',
                 ''UniqueSymbol'', ''BooleanKeyword'', ''StringKeyword'', ''NumberKeyword'',
                 ''BigIntKeyword'', ''SymbolKeyword'', ''UnknownKeyword'', ''AnyKeyword''}"
    by simp
  from struct_sorted_by_cardinality [where x = "ObjectKeyword fmempty"] t
  have o: "getCardinality (ObjectKeyword fmempty) = 5" by blast
  show ?thesis using h r ev o by blast
qed


section \<open>Appending to a tuple\<close>

text \<open>
  Claim C6. \<open>appendRestElement\<close> fails on a tuple that already has a rest element and
  succeeds on every other tuple. \<open>appendElement\<close> fails when a required element is added to
  a tuple that has an optional element, fails when an optional element is added to a tuple
  that has a rest element, and succeeds in every other case.
\<close>

theorem tuple_append_failures:
  "(rest t \<noteq> None \<longrightarrow>
      appendRestElement t r a
        = Inl (Error ''A rest element cannot follow another rest element. ts(1265)''))
   \<and> (rest t = None \<longrightarrow> (\<exists>t'. appendRestElement t r a = Inr t'))
   \<and> ((\<exists>x \<in> set (elements t). element_isOptional x) \<and> \<not> element_isOptional e \<longrightarrow>
        appendElement t e a
          = Inl (Error ''A required element cannot follow an optional element. ts(1257)''))
   \<and> (rest t \<noteq> None \<and> element_isOptional e \<longrightarrow>
        appendElement t e a
          = Inl (Error ''An optional element cannot follow a rest element. ts(1266)''))
   \<and> (\<not> ((\<exists>x \<in> set (elements t). element_isOptional x) \<and> \<not> element_isOptional e)
        \<and> \<not> (rest t \<noteq> None \<and> element_isOptional e) \<longrightarrow>
        (\<exists>t'. appendElement t e a = Inr t'))"
  by (auto simp: appendRestElement_def appendElement_def list_ex_iff split: option.splits)

theorem tuple_append_failures_witness:
  "rest (MkTuple [Element (StringKeyword fmempty) True fmempty] (Some [NumberKeyword fmempty]) False fmempty False) \<noteq> None
   \<and> appendRestElement
        (MkTuple [Element (StringKeyword fmempty) True fmempty] (Some [NumberKeyword fmempty]) False fmempty False)
        (StringKeyword fmempty) fmempty
       = Inl (Error ''A rest element cannot follow another rest element. ts(1265)'')
   \<and> appendElement
        (MkTuple [Element (StringKeyword fmempty) True fmempty] (Some [NumberKeyword fmempty]) False fmempty False)
        (Element (BooleanKeyword fmempty) False fmempty) fmempty
       = Inl (Error ''A required element cannot follow an optional element. ts(1257)'')
   \<and> appendElement
        (MkTuple [Element (StringKeyword fmempty) True fmempty] (Some [NumberKeyword fmempty]) False fmempty False)
        (Element (BooleanKeyword fmempty) True fmempty) fmempty
       = Inl (Error ''An optional element cannot follow a rest element. ts(1266)'')
   \<and> (\<exists>t'. appendElement (MkTuple [Element (StringKeyword fmempty) True fmempty] None False fmempty False)
              (Element (BooleanKeyword fmempty) True fmempty) fmempty = Inr t')
   \<and> (\<exists>t'. appendRestElement (MkTuple [Element (StringKeyword fmempty) True fmempty] None False fmempty False)
              (BooleanKeyword fmempty) fmempty = Inr t')"
proof -
  let ?t = "MkTuple [Element (StringKeyword fmempty) True fmempty] (Some [NumberKeyword fmempty]) False fmempty False"
  let ?u = "MkTuple [Element (StringKeyword fmempty) True fmempty] None False fmempty False"
  let ?req = "Element (BooleanKeyword fmempty) False fmempty"
  let ?opt = "Element (BooleanKeyword fmempty) True fmempty"
  have h1: "rest ?t \<noteq> None" by simp
  have h2: "(\<exists>x \<in> set (elements ?t). element_isOptional x) \<and> \<not> element_isOptional ?req" by simp
  have h3: "rest ?t \<noteq> None \<and> element_isOptional ?opt" by simp
  have h4: "\<not> ((\<exists>x \<in> set (elements ?u). element_isOptional x) \<and> \<not> element_isOptional ?opt)
        \<and> \<not> (rest ?u \<noteq> None \<and> element_isOptional ?opt)" by simp
  have h5: "rest ?u = None" by simp
  from tuple_append_failures [of ?t "StringKeyword fmempty" fmempty ?req] h1 h2
  have r1: "appendRestElement ?t (StringKeyword fmempty) fmempty
       = Inl (Error ''A rest element cannot follow another rest element. ts(1265)'')"
    and r2: "appendElement ?t ?req fmempty
       = Inl (Error ''A required element cannot follow an optional element. ts(1257)'')"
    by blast+
  from tuple_append_failures [of ?t "StringKeyword fmempty" fmempty ?opt] h3
  have r3: "appendElement ?t ?opt fmempty
       = Inl (Error ''An optional element cannot follow a rest element. ts(1266)'')"
    by blast
  from tuple_append_failures [of ?u "BooleanKeyword fmempty" fmempty ?opt] h4 h5
  have r4: "\<exists>t'. appendElement ?u ?opt fmempty = Inr t'"
    and r5: "\<exists>t'. appendRestElement ?u (BooleanKeyword fmempty) fmempty = Inr t'"
    by blast+
  show ?thesis using h1 r1 r2 r3 r4 r5 by blast
qed

text \<open>
  Claim C10. When \<open>appendRestElement\<close> or \<open>appendElement\<close> returns a tuple, that tuple has
  the elements of the argument (followed by the new element when \<open>appendElement\<close> is applied
  to a tuple without rest) and its \<open>isReadonly\<close> flag, its \<open>allowUnexpected\<close> is false and
  its annotations are the annotations passed to the call: the \<open>allowUnexpected\<close> flag and
  the annotations of the argument are not carried over.
\<close>

theorem tuple_append_frame:
  "(appendRestElement t r a = Inr t' \<longrightarrow>
      elements t' = elements t \<and> tuple_isReadonly t' = tuple_isReadonly t
      \<and> rest t' = Some [r]
      \<and> tuple_allowUnexpected t' = False \<and> tuple_annotations t' = a)
   \<and> (appendElement t e a = Inr t'' \<longrightarrow>
      elements t'' = (if rest t = None then elements t @ [e] else elements t)
      \<and> rest t'' = map_option (\<lambda>rs. rs @ [element_type e]) (rest t)
      \<and> tuple_isReadonly t'' = tuple_isReadonly t
      \<and> tuple_allowUnexpected t'' = False \<and> tuple_annotations t'' = a)"
  by (auto simp: appendRestElement_def appendElement_def tuple_def
           split: option.splits if_splits)

theorem tuple_append_frame_witness:
  "appendRestElement
      (MkTuple [Element (StringKeyword fmempty) False fmempty] None True (fmupd (PKString ''id'') (UString ''t'') fmempty) True)
      (NumberKeyword fmempty) fmempty
     = Inr (MkTuple [Element (StringKeyword fmempty) False fmempty] (Some [NumberKeyword fmempty]) True fmempty False)
   \<and> tuple_allowUnexpected
        (MkTuple [Element (StringKeyword fmempty) False fmempty] (Some [NumberKeyword fmempty]) True fmempty False) = False
   \<and> tuple_annotations
        (MkTuple [Element (StringKeyword fmempty) False fmempty] (Some [NumberKeyword fmempty]) True fmempty False) = fmempty
   \<and> appendElement
      (MkTuple [Element (StringKeyword fmempty) False fmempty] None True (fmupd (PKString ''id'') (UString ''t'') fmempty) True)
      (Element (NumberKeyword fmempty) False fmempty) (fmupd (PKString ''k'') UNull fmempty)
     = Inr (MkTuple [Element (StringKeyword fmempty) False fmempty, Element (NumberKeyword fmempty) False fmempty]
              None True (fmupd (PKString ''k'') UNull fmempty) False)
   \<and> tuple_allowUnexpected
        (MkTuple [Element (StringKeyword fmempty) False fmempty, Element (NumberKeyword fmempty) False fmempty]
              None True (fmupd (PKString ''k'') UNull fmempty) False) = False"
proof -
  let ?t = "MkTuple [Element (StringKeyword fmempty) False fmempty] None True (fmupd (PKString ''id'') (UString ''t'') fmempty) True"
  let ?t1 = "MkTuple [Element (StringKeyword fmempty) False fmempty] (Some [NumberKeyword fmempty]) True fmempty False"
  let ?t2 = "MkTuple [Element (StringKeyword fmempty) False fmempty, Element (NumberKeyword fmempty) False fmempty]
              None True (fmupd (PKString ''k'') UNull fmempty) False"
  have h1: "appendRestElement ?t (NumberKeyword fmempty) fmempty = Inr ?t1"
    by (simp add: appendRestElement_def tuple_def)
  have h2: "appendElement ?t (Element (NumberKeyword fmempty) False fmempty) (fmupd (PKString ''k'') UNull fmempty) = Inr ?t2"
    by (simp add: appendElement_def tuple_def)
  from tuple_append_frame [of ?t "NumberKeyword fmempty" fmempty ?t1] h1
  have r1: "tuple_allowUnexpected ?t1 = False \<and> tuple_annotations ?t1 = fmempty" by blast
  from tuple_append_frame [where t = ?t and e = "Element (NumberKeyword fmempty) False fmempty"
      and a = "fmupd (PKString ''k'') UNull fmempty" and t'' = ?t2] h2
  have r2: "tuple_allowUnexpected ?t2 = False" by blast
  show ?thesis using h1 h2 r1 r2 by blast
qed


section \<open>keyof\<close>

text \<open>
  Claim C9. \<open>keyof\<close> throws "cannot `keyof` on this AST" on a StringKeyword, a LiteralType
  and a Tuple, whereas on the number, boolean, bigint, symbol, undefined, void, object and
  unknown keywords, on a unique symbol and on enums it returns the one-element list
  \<open>[never]\<close>.
\<close>

theorem keyof_default_branch:
  "keyof (StringKeyword a) = Inl (Error ''cannot `keyof` on this AST'')
   \<and> keyof (LiteralType l a) = Inl (Error ''cannot `keyof` on this AST'')
   \<and> keyof (Tuple t) = Inl (Error ''cannot `keyof` on this AST'')
   \<and> keyof (NumberKeyword a) = Inr [never]
   \<and> keyof (BooleanKeyword a) = Inr [never]
   \<and> keyof (BigIntKeyword a) = Inr [never]
   \<and> keyof (SymbolKeyword a) = Inr [never]
   \<and> keyof (UndefinedKeyword a) = Inr [never]
   \<and> keyof (VoidKeyword a) = Inr [never]
   \<and> keyof (ObjectKeyword a) = Inr [never]
   \<and> keyof (UnknownKeyword a) = Inr [never]
   \<and> keyof (UniqueSymbol s a) = Inr [never]
   \<and> keyof (Enums es a) = Inr [never]
   \<and> never = NeverKeyword fmempty"
  by (simp add: never_def neverKeyword_def)

theorem keyof_default_branch_witness:
  "keyof (StringKeyword fmempty) = Inl (Error ''cannot `keyof` on this AST'')
   \<and> keyof (LiteralType (LString ''a'') fmempty) = Inl (Error ''cannot `keyof` on this AST'')
   \<and> keyof (Tuple (MkTuple [] None False fmempty False)) = Inl (Error ''cannot `keyof` on this AST'')
   \<and> keyof (NumberKeyword fmempty) = Inr [NeverKeyword fmempty]
   \<and> keyof (Enums [(''A'', ENumber 0)] fmempty) = Inr [NeverKeyword fmempty]"
  using keyof_default_branch [of fmempty "LString ''a''" "MkTuple [] None False fmempty False"
      "Symbol 0" "[(''A'', ENumber 0)]"]
  by simp

lemma getIndexSignaturesKeys_loop_string:
  "has_string (getIndexSignaturesKeys_loop out iss)
     = (has_string out \<or> (\<exists>i \<in> set iss. is_key i = IString))"
  by (induction iss arbitrary: out) (auto intro: indexSignatureKey.exhaust)

lemma getIndexSignaturesKeys_loop_number:
  "has_number (getIndexSignaturesKeys_loop out iss)
     = (has_number out \<or> (\<exists>i \<in> set iss. is_key i = INumber \<or> is_key i = IString))"
  by (induction iss arbitrary: out) (auto intro: indexSignatureKey.exhaust)

lemma getIndexSignaturesKeys_loop_symbol:
  "has_symbol (getIndexSignaturesKeys_loop out iss)
     = (has_symbol out \<or> (\<exists>i \<in> set iss. is_key i = ISymbol))"
  by (induction iss arbitrary: out) (auto intro: indexSignatureKey.exhaust)

lemma getIndexSignaturesKeys_covers:
  "lookup_key (getIndexSignaturesKeys iss) (typeof_key k) = (\<exists>i \<in> set iss. covers (is_key i) k)"
  by (cases "typeof_key k")
     (auto simp: getIndexSignaturesKeys_def lookup_key_def covers_def
        getIndexSignaturesKeys_loop_string getIndexSignaturesKeys_loop_number
        getIndexSignaturesKeys_loop_symbol)

lemma keyof_Struct:
  "keyof (Struct s) =
     Inr (map getPropertyKeyAST
            (filter (\<lambda>k. \<not> (\<exists>i \<in> set (indexSignatures s). covers (is_key i) k))
               (map field_key (fields s)))
          @ map getIndexSignatureAST (indexSignatures s))"
  by (simp add: Let_def getIndexSignaturesKeys_covers filter_map comp_def)

lemma union_string_number:
  "union [StringKeyword fmempty, NumberKeyword fmempty] fmempty
     = Union [StringKeyword fmempty, NumberKeyword fmempty] fmempty"
  by (simp add: union_def flatMap_def uniq_def equals_def sortByWeightDesc_def)

lemma erase_getPropertyKeyAST: "erase (getPropertyKeyAST k) = getPropertyKeyAST k"
  by (cases k) (simp_all add: getPropertyKeyAST_def literalType_def uniqueSymbol_def)

lemma erase_getIndexSignatureAST: "erase (getIndexSignatureAST i) = getIndexSignatureAST i"
  by (simp add: getIndexSignatureAST_def union_string_number symbol_def number_def
        Spec2Isabelle.string_def symbolKeyword_def numberKeyword_def stringKeyword_def)

lemma intersection_plain:
  assumes "\<forall>k \<in> set self. erase k = k" and "\<forall>k \<in> set that. erase k = k"
  shows "intersection that self = filter (\<lambda>a. a \<in> set that) self"
proof -
  have "\<And>a. a \<in> set self \<Longrightarrow> list_ex (\<lambda>b. equals a b) that = (a \<in> set that)"
  proof -
    fix a assume a: "a \<in> set self"
    show "list_ex (\<lambda>b. equals a b) that = (a \<in> set that)"
    proof
      assume "list_ex (\<lambda>b. equals a b) that"
      then obtain b where b: "b \<in> set that" "erase a = erase b"
        unfolding list_ex_iff equals_def by blast
      with a assms have "a = b" by simp
      with b show "a \<in> set that" by simp
    next
      assume "a \<in> set that"
      then show "list_ex (\<lambda>b. equals a b) that"
        unfolding list_ex_iff equals_def by blast
    qed
  qed
  then show ?thesis unfolding intersection_def by (rule filter_cong [OF refl])
qed

lemma keyof_loop_subset: "keyof_loop out rs = Inr ks \<Longrightarrow> set ks \<subseteq> set out"
proof (induction rs arbitrary: out)
  case Nil
  then show ?case by simp
next
  case (Cons r rs)
  then obtain ks' where r: "r = Inr ks'" by (cases r) auto
  with Cons.prems have "keyof_loop (intersection ks' out) rs = Inr ks" by simp
  then have "set ks \<subseteq> set (intersection ks' out)" by (rule Cons.IH)
  then show ?case by (auto simp: intersection_def)
qed

lemma keyof_members_subset:
  "keyof_members rs = Inr ks \<Longrightarrow> \<exists>ks0 rs'. rs = Inr ks0 # rs' \<and> set ks \<subseteq> set ks0"
  by (cases rs; cases "hd rs")
     (auto simp: keyof_members_def dest: keyof_loop_subset split: sum.splits)

text \<open>
  The nodes that \<open>keyof\<close> returns hold no Lazy node, so on them the equality of the library
  is the equality of HOL.
\<close>

lemma keyof_plain: "keyof x = Inr ks \<Longrightarrow> k \<in> set ks \<Longrightarrow> erase k = k"
proof (induction x arbitrary: ks k)
  case (Struct s)
  then show ?case
    by (auto simp: Let_def erase_getPropertyKeyAST erase_getIndexSignatureAST)
next
  case (Union ms a)
  from Union.prems(1) have "keyof_members (map keyof ms) = Inr ks" by simp
  from keyof_members_subset [OF this]
  obtain ks0 rs' where rs: "map keyof ms = Inr ks0 # rs'" and sub: "set ks \<subseteq> set ks0"
    by (elim exE conjE)
  from rs obtain m ms' where ms: "ms = m # ms'" and m: "keyof m = Inr ks0"
    by (cases ms) auto
  from ms have "m \<in> set ms" by simp
  moreover from sub Union.prems(2) have "k \<in> set ks0" by blast
  ultimately show ?case using Union.IH m by blast
next
  case (Lazy r f a)
  from Lazy.prems have "keyof (f ()) = Inr ks" by simp
  moreover have "f () \<in> range f" by simp
  ultimately show ?case using Lazy.IH Lazy.prems(2) by blast
qed (auto simp: Spec2Isabelle.string_def number_def symbol_def never_def stringKeyword_def
       numberKeyword_def symbolKeyword_def neverKeyword_def)

lemma keyof_loop_ok:
  assumes "\<forall>r \<in> set rs. \<not> isl r" and "\<forall>k \<in> set out. erase k = k"
    and "\<forall>r \<in> set rs. \<forall>k \<in> set (projr r). erase k = k"
  shows "keyof_loop out rs = Inr (filter (\<lambda>k. \<forall>r \<in> set rs. k \<in> set (projr r)) out)"
  using assms
proof (induction rs arbitrary: out)
  case Nil
  then show ?case by simp
next
  case (Cons r rs)
  then obtain ks where r: "r = Inr ks" by (cases r) auto
  from Cons.prems r have pk: "\<forall>k \<in> set ks. erase k = k" by simp
  have i: "intersection ks out = filter (\<lambda>a. a \<in> set ks) out"
    using Cons.prems(2) pk by (rule intersection_plain)
  have "keyof_loop (filter (\<lambda>a. a \<in> set ks) out) rs
          = Inr (filter (\<lambda>k. \<forall>r \<in> set rs. k \<in> set (projr r)) (filter (\<lambda>a. a \<in> set ks) out))"
    using Cons.prems by (intro Cons.IH) simp_all
  then show ?case by (simp add: r i conj_commute)
qed

lemma keyof_loop_fail: "r \<in> set rs \<Longrightarrow> isl r \<Longrightarrow> isl (keyof_loop out rs)"
  by (induction rs arbitrary: out) (auto split: sum.splits)

lemma keyof_members_ok:
  assumes "rs \<noteq> []" and "\<forall>r \<in> set rs. \<not> isl r"
    and "\<forall>r \<in> set rs. \<forall>k \<in> set (projr r). erase k = k"
  shows "keyof_members rs
           = Inr (filter (\<lambda>k. \<forall>r \<in> set (tl rs). k \<in> set (projr r)) (projr (hd rs)))"
proof -
  from assms obtain ks rs' where rs: "rs = Inr ks # rs'"
    by (cases rs; cases "hd rs") auto
  with assms have "\<forall>r \<in> set rs'. \<not> isl r" "\<forall>k \<in> set ks. erase k = k"
    "\<forall>r \<in> set rs'. \<forall>k \<in> set (projr r). erase k = k" by simp_all
  then show ?thesis by (simp add: keyof_members_def rs keyof_loop_ok)
qed

lemma keyof_members_fail: "r \<in> set rs \<Longrightarrow> isl r \<Longrightarrow> isl (keyof_members rs)"
  by (cases rs) (auto simp: keyof_members_def keyof_loop_fail split: sum.splits)

text \<open>
  Claim C4. \<open>keyof\<close> of a Struct returns the keys of its fields, as literal and unique-symbol
  nodes and without the keys that an index-signature domain covers, followed by the key
  domains of its index signatures (symbol, number, and the union of string and number for
  the string domain). \<open>keyof\<close> of a Union whose members all have a \<open>keyof\<close> is the
  intersection of the \<open>keyof\<close> of the members, in the order of the first member, and it
  throws when a member throws. \<open>keyof\<close> of never and of any is the list of the string,
  number and symbol keywords. On a TypeAlias, a Lazy node and a Refinement \<open>keyof\<close> is the
  \<open>keyof\<close> of the wrapped, produced or refined type.
\<close>

theorem keyof_structure:
  "keyof (Struct s) =
     Inr (map getPropertyKeyAST
            (filter (\<lambda>k. \<not> (\<exists>i \<in> set (indexSignatures s). covers (is_key i) k))
               (map field_key (fields s)))
          @ map getIndexSignatureAST (indexSignatures s))
   \<and> getPropertyKeyAST (PKString str) = LiteralType (LString str) fmempty
   \<and> getPropertyKeyAST (PKNumber n) = LiteralType (LNumber n) fmempty
   \<and> getPropertyKeyAST (PKSymbol sy) = UniqueSymbol sy fmempty
   \<and> getIndexSignatureAST (IndexSignature ISymbol v ro an) = SymbolKeyword fmempty
   \<and> getIndexSignatureAST (IndexSignature INumber v ro an) = NumberKeyword fmempty
   \<and> getIndexSignatureAST (IndexSignature IString v ro an)
       = Union [StringKeyword fmempty, NumberKeyword fmempty] fmempty
   \<and> (ms \<noteq> [] \<and> (\<forall>m \<in> set ms. \<not> isl (keyof m)) \<longrightarrow>
        (\<exists>out. keyof (Union ms a) = Inr out
               \<and> out = filter (\<lambda>k. \<forall>m \<in> set (tl ms). k \<in> set (projr (keyof m)))
                         (projr (keyof (hd ms)))
               \<and> set out = (\<Inter>m \<in> set ms. set (projr (keyof m)))))
   \<and> ((\<exists>m \<in> set ms. isl (keyof m)) \<longrightarrow> isl (keyof (Union ms a)))
   \<and> keyof (NeverKeyword a) = Inr [StringKeyword fmempty, NumberKeyword fmempty, SymbolKeyword fmempty]
   \<and> keyof (AnyKeyword a) = Inr [StringKeyword fmempty, NumberKeyword fmempty, SymbolKeyword fmempty]
   \<and> keyof (TypeAlias ps t a) = keyof t
   \<and> keyof (Lazy r f a) = keyof (f ())
   \<and> keyof (Refinement t p mt a) = keyof t"
proof -
  have pk: "getPropertyKeyAST (PKString str) = LiteralType (LString str) fmempty"
    "getPropertyKeyAST (PKNumber n) = LiteralType (LNumber n) fmempty"
    "getPropertyKeyAST (PKSymbol sy) = UniqueSymbol sy fmempty"
    by (simp_all add: getPropertyKeyAST_def literalType_def uniqueSymbol_def)
  have isa: "getIndexSignatureAST (IndexSignature ISymbol v ro an) = SymbolKeyword fmempty"
    "getIndexSignatureAST (IndexSignature INumber v ro an) = NumberKeyword fmempty"
    "getIndexSignatureAST (IndexSignature IString v ro an)
       = Union [StringKeyword fmempty, NumberKeyword fmempty] fmempty"
    by (simp_all add: getIndexSignatureAST_def union_string_number symbol_def number_def
          Spec2Isabelle.string_def symbolKeyword_def numberKeyword_def stringKeyword_def)
  have un: "ms \<noteq> [] \<and> (\<forall>m \<in> set ms. \<not> isl (keyof m)) \<longrightarrow>
        (\<exists>out. keyof (Union ms a) = Inr out
               \<and> out = filter (\<lambda>k. \<forall>m \<in> set (tl ms). k \<in> set (projr (keyof m)))
                         (projr (keyof (hd ms)))
               \<and> set out = (\<Inter>m \<in> set ms. set (projr (keyof m))))"
  proof
    assume h: "ms \<noteq> [] \<and> (\<forall>m \<in> set ms. \<not> isl (keyof m))"
    then have "map keyof ms \<noteq> []" "\<forall>r \<in> set (map keyof ms). \<not> isl r" by simp_all
    moreover have "\<forall>r \<in> set (map keyof ms). \<forall>k \<in> set (projr r). erase k = k"
    proof (intro ballI)
      fix r k assume r: "r \<in> set (map keyof ms)" and k: "k \<in> set (projr r)"
      from r obtain m where m: "m \<in> set ms" "r = keyof m" by auto
      with h obtain ks where "keyof m = Inr ks" by (cases "keyof m") auto
      with m k show "erase k = k" using keyof_plain by auto
    qed
    ultimately
    have "keyof_members (map keyof ms)
          = Inr (filter (\<lambda>k. \<forall>r \<in> set (tl (map keyof ms)). k \<in> set (projr r))
                  (projr (hd (map keyof ms))))"
      by (rule keyof_members_ok)
    then have k: "keyof (Union ms a)
          = Inr (filter (\<lambda>k. \<forall>m \<in> set (tl ms). k \<in> set (projr (keyof m)))
                  (projr (keyof (hd ms))))"
      using h by (simp add: hd_map map_tl [symmetric])
    from h obtain m0 ms' where ms: "ms = m0 # ms'" by (cases ms) auto
    have "set (filter (\<lambda>k. \<forall>m \<in> set (tl ms). k \<in> set (projr (keyof m)))
                  (projr (keyof (hd ms)))) = (\<Inter>m \<in> set ms. set (projr (keyof m)))"
      by (auto simp: ms)
    with k show "\<exists>out. keyof (Union ms a) = Inr out
               \<and> out = filter (\<lambda>k. \<forall>m \<in> set (tl ms). k \<in> set (projr (keyof m)))
                         (projr (keyof (hd ms)))
               \<and> set out = (\<Inter>m \<in> set ms. set (projr (keyof m)))"
      by simp
  qed
  have uf: "(\<exists>m \<in> set ms. isl (keyof m)) \<longrightarrow> isl (keyof (Union ms a))"
    using keyof_members_fail [of _ "map keyof ms"] by auto
  have nv: "keyof (NeverKeyword a) = Inr [StringKeyword fmempty, NumberKeyword fmempty, SymbolKeyword fmempty]"
    "keyof (AnyKeyword a) = Inr [StringKeyword fmempty, NumberKeyword fmempty, SymbolKeyword fmempty]"
    by (simp_all add: Spec2Isabelle.string_def number_def symbol_def stringKeyword_def
          numberKeyword_def symbolKeyword_def)
  show ?thesis
    using keyof_Struct [of s] pk isa un uf nv by simp
qed

theorem keyof_structure_witness:
  "[Struct (MkStruct [Field (PKString ''a'') (StringKeyword fmempty) False False fmempty,
                      Field (PKString ''b'') (NumberKeyword fmempty) False False fmempty] [] fmempty False),
    Struct (MkStruct [Field (PKString ''b'') (NumberKeyword fmempty) False False fmempty,
                      Field (PKString ''c'') (NumberKeyword fmempty) False False fmempty] [] fmempty False)] \<noteq> []
   \<and> keyof (Union
        [Struct (MkStruct [Field (PKString ''a'') (StringKeyword fmempty) False False fmempty,
                           Field (PKString ''b'') (NumberKeyword fmempty) False False fmempty] [] fmempty False),
         Struct (MkStruct [Field (PKString ''b'') (NumberKeyword fmempty) False False fmempty,
                           Field (PKString ''c'') (NumberKeyword fmempty) False False fmempty] [] fmempty False)] fmempty)
      = Inr [LiteralType (LString ''b'') fmempty]
   \<and> isl (keyof (Union [NumberKeyword fmempty, StringKeyword fmempty] fmempty))
   \<and> keyof (Struct (MkStruct [Field (PKNumber 1) (StringKeyword fmempty) False False fmempty,
                               Field (PKSymbol (Symbol 0)) (StringKeyword fmempty) False False fmempty]
                      [IndexSignature IString (StringKeyword fmempty) False fmempty] fmempty False))
      = Inr [UniqueSymbol (Symbol 0) fmempty, Union [StringKeyword fmempty, NumberKeyword fmempty] fmempty]"
proof -
  let ?s1 = "Struct (MkStruct [Field (PKString ''a'') (StringKeyword fmempty) False False fmempty,
                      Field (PKString ''b'') (NumberKeyword fmempty) False False fmempty] [] fmempty False)"
  let ?s2 = "Struct (MkStruct [Field (PKString ''b'') (NumberKeyword fmempty) False False fmempty,
                      Field (PKString ''c'') (NumberKeyword fmempty) False False fmempty] [] fmempty False)"
  let ?s3 = "MkStruct [Field (PKNumber 1) (StringKeyword fmempty) False False fmempty,
                               Field (PKSymbol (Symbol 0)) (StringKeyword fmempty) False False fmempty]
                      [IndexSignature IString (StringKeyword fmempty) False fmempty] fmempty False"
  have k1: "keyof ?s1 = Inr [LiteralType (LString ''a'') fmempty, LiteralType (LString ''b'') fmempty]"
    by (simp add: getIndexSignaturesKeys_def lookup_key_def typeof_key_def getPropertyKeyAST_def
          literalType_def)
  have k2: "keyof ?s2 = Inr [LiteralType (LString ''b'') fmempty, LiteralType (LString ''c'') fmempty]"
    by (simp add: getIndexSignaturesKeys_def lookup_key_def typeof_key_def getPropertyKeyAST_def
          literalType_def)
  have h: "[?s1, ?s2] \<noteq> [] \<and> (\<forall>m \<in> set [?s1, ?s2]. \<not> isl (keyof m))"
    using k1 k2 by simp
  from keyof_structure [where ms = "[?s1, ?s2]" and a = fmempty] h
  have "keyof (Union [?s1, ?s2] fmempty)
      = Inr (filter (\<lambda>k. \<forall>m \<in> set (tl [?s1, ?s2]). k \<in> set (projr (keyof m)))
                         (projr (keyof (hd [?s1, ?s2]))))"
    by blast
  then have r1: "keyof (Union [?s1, ?s2] fmempty) = Inr [LiteralType (LString ''b'') fmempty]"
    using k1 k2 by simp
  have h2: "\<exists>m \<in> set [NumberKeyword fmempty, StringKeyword fmempty]. isl (keyof m)" by simp
  from keyof_structure [where ms = "[NumberKeyword fmempty, StringKeyword fmempty]" and a = fmempty] h2
  have r2: "isl (keyof (Union [NumberKeyword fmempty, StringKeyword fmempty] fmempty))" by blast
  from keyof_structure [where s = ?s3]
  have "keyof (Struct ?s3) =
     Inr (map getPropertyKeyAST
            (filter (\<lambda>k. \<not> (\<exists>i \<in> set (indexSignatures ?s3). covers (is_key i) k))
               (map field_key (fields ?s3)))
          @ map getIndexSignatureAST (indexSignatures ?s3))"
    by blast
  then have r3: "keyof (Struct ?s3)
      = Inr [UniqueSymbol (Symbol 0) fmempty, Union [StringKeyword fmempty, NumberKeyword fmempty] fmempty]"
    by (simp add: covers_def typeof_key_def getPropertyKeyAST_def uniqueSymbol_def
          getIndexSignatureAST_def union_string_number Spec2Isabelle.string_def number_def
          stringKeyword_def numberKeyword_def)
  show ?thesis using r1 r2 r3 by blast
qed


section \<open>record\<close>

text \<open>
  Claim C5 says that \<open>record\<close> fails on every key that is not a string, a number or a
  symbol. On a literal key that is a boolean, null or a bigint the code does not fail: the
  LiteralType branch pushes a field only for a string and a number and has no else, so such
  a key is dropped and the result is the struct with no field and no index signature. The
  default branch of the same switch fails on the keyword types of these literals with the
  constraint error ts(2344).
\<close>

theorem record_literal_key_not_rejected:
  "record_ast (LiteralType (LBoolean True) fmempty) (StringKeyword fmempty) False
     = Inr (MkStruct [] [] fmempty False)
   \<and> record_ast (LiteralType (LBoolean b) a) v ro = Inr (MkStruct [] [] fmempty False)
   \<and> record_ast (LiteralType LNull a) v ro = Inr (MkStruct [] [] fmempty False)
   \<and> record_ast (LiteralType (LBigInt n) a) v ro = Inr (MkStruct [] [] fmempty False)
   \<and> record_ast (BooleanKeyword a) v ro = Inl (constraintError (BooleanKeyword a))
   \<and> record_ast (BigIntKeyword a) v ro = Inl (constraintError (BigIntKeyword a))
   \<and> record_ast (BooleanKeyword fmempty) (StringKeyword fmempty) False
     = Inl (Error (''Type '' @ quoted ''BooleanKeyword'' @ '' does not satisfy the constraint ''
                   @ quoted ''string | number | symbol'' @ ''. ts(2344)''))
   \<and> record_ast (LiteralType (LString ''a'') fmempty) (StringKeyword fmempty) False
     = Inr (MkStruct [Field (PKString ''a'') (StringKeyword fmempty) False False fmempty] []
              fmempty False)"
  by (simp add: record_ast_def struct_def field_def constraintError_def
        sortByCardinalityAsc_fields_def sortByCardinalityAsc_indexSignatures_def)


section \<open>partial\<close>






section \<open>The error model\<close>

lemma toReadonlyArray_map:
  "toReadonlyArray (map_nonEmptyReadonlyArray f es) = map f (toReadonlyArray es)"
  by (cases es) (simp add: toReadonlyArray_def)

lemma set_toReadonlyArray: "set (toReadonlyArray es) = set_nonEmptyReadonlyArray es"
  by (cases es) (simp add: toReadonlyArray_def)

lemma toReadonlyArray_not_Nil: "toReadonlyArray es \<noteq> []"
  by (simp add: toReadonlyArray_def)

lemma nonEmptyEverywhere_all: "nonEmptyEverywhere e"
  by (induction e)
     (simp_all add: toReadonlyArray_map toReadonlyArray_not_Nil list_all_iff
        set_toReadonlyArray)

text \<open>
  Claim C8. The sequence of entries of every ParseError is not empty, and neither is the
  sequence that an Index, Key or UnionMember error wraps, at any depth inside an error:
  the constructors take and store a NonEmptyReadonlyArray. A result is a success value or
  one ParseError and never both; \<open>failure\<close> builds an error with exactly the one entry
  given and \<open>failures\<close> an error with the entries given.
\<close>

theorem parse_error_non_empty:
  "toReadonlyArray (errors pe) \<noteq> []
   \<and> 1 \<le> length (toReadonlyArray (errors (parseError es)))
   \<and> (isComposite e \<longrightarrow> wrapped e \<noteq> [])
   \<and> wrapped (index i es) = toReadonlyArray es
   \<and> wrapped (key k es) = toReadonlyArray es
   \<and> wrapped (unionMember es) = toReadonlyArray es
   \<and> nonEmptyEverywhere e
   \<and> list_all nonEmptyEverywhere (toReadonlyArray (errors pe))
   \<and> ((\<exists>x. (r :: 'a parseResult) = success x) \<noteq> (\<exists>pe'. r = fail pe'))
   \<and> (success x :: 'a parseResult) \<noteq> fail pe
   \<and> (failure e :: 'a parseResult) = fail (parseError (NonEmptyReadonlyArray e []))
   \<and> toReadonlyArray (errors (parseError (NonEmptyReadonlyArray e []))) = [e]
   \<and> (failures es :: 'a parseResult) = fail (parseError es)"
proof -
  have a1: "toReadonlyArray (errors pe) \<noteq> []" by (rule toReadonlyArray_not_Nil)
  have a2: "1 \<le> length (toReadonlyArray (errors (parseError es)))"
    by (simp add: toReadonlyArray_def)
  have a3: "isComposite e \<longrightarrow> wrapped e \<noteq> []"
    by (cases e) (simp_all add: toReadonlyArray_not_Nil)
  have a4: "wrapped (index i es) = toReadonlyArray es" by (simp add: index_def)
  have a5: "wrapped (key k es) = toReadonlyArray es" by (simp add: key_def)
  have a6: "wrapped (unionMember es) = toReadonlyArray es" by (simp add: unionMember_def)
  have a7: "nonEmptyEverywhere e" by (rule nonEmptyEverywhere_all)
  have a8: "list_all nonEmptyEverywhere (toReadonlyArray (errors pe))"
    by (simp add: list_all_iff nonEmptyEverywhere_all)
  have a9: "(\<exists>x. r = success x) \<noteq> (\<exists>pe'. r = fail pe')"
    by (cases r) (simp_all add: success_def fail_def)
  have a10: "(success x :: 'a parseResult) \<noteq> fail pe" by (simp add: success_def fail_def)
  have a11: "(failure e :: 'a parseResult) = fail (parseError (NonEmptyReadonlyArray e []))"
    by (simp add: failure_def)
  have a12: "toReadonlyArray (errors (parseError (NonEmptyReadonlyArray e []))) = [e]"
    by (simp add: parseError_def toReadonlyArray_def)
  have a13: "(failures es :: 'a parseResult) = fail (parseError es)"
    by (simp add: failures_def fail_def)
  show ?thesis
    by (intro conjI) (fact a1 a2 a3 a4 a5 a6 a7 a8 a9 a10 a11 a12 a13)+
qed

theorem parse_error_non_empty_witness:
  "isComposite (Key (PKString ''a'') (NonEmptyReadonlyArray Missing []))
   \<and> wrapped (Key (PKString ''a'') (NonEmptyReadonlyArray Missing [])) = [Missing]
   \<and> wrapped (Key (PKString ''a'') (NonEmptyReadonlyArray Missing [])) \<noteq> []
   \<and> (failure Missing :: unknown parseResult)
       = Inl (ParseError (NonEmptyReadonlyArray Missing []))"
proof -
  let ?e = "Key (PKString ''a'') (NonEmptyReadonlyArray Missing [])"
  have h: "isComposite ?e" by simp
  have n: "wrapped ?e \<noteq> []"
    using parse_error_non_empty [where e = ?e, THEN conjunct2, THEN conjunct2, THEN conjunct1] h
    by (rule mp)
  have w: "wrapped ?e = [Missing]" by (simp add: toReadonlyArray_def)
  have "(failure Missing :: unknown parseResult)
          = fail (parseError (NonEmptyReadonlyArray Missing []))"
    by (rule parse_error_non_empty [where e = Missing, THEN conjunct2, THEN conjunct2,
          THEN conjunct2, THEN conjunct2, THEN conjunct2, THEN conjunct2, THEN conjunct2,
          THEN conjunct2, THEN conjunct2, THEN conjunct2, THEN conjunct1])
  then have f: "(failure Missing :: unknown parseResult)
       = Inl (ParseError (NonEmptyReadonlyArray Missing []))"
    by (simp add: fail_def parseError_def)
  show ?thesis by (intro conjI) (fact h n w f)+
qed

end
